theory Spec2Isabelle
  imports Main "HOL-Library.Sublist"
begin

section \<open>Type-Scribe AI backend: the request pipeline of \<open>backend/app/main.py\<close>\<close>

text \<open>
  The backend is a single request handler that chains calls to an ingestion service
  (the Graphlit client) and to language-model agents (the Agno team and the usage agent).
  Those collaborators are not part of the repository, so the model takes them as
  parameters: a record of operations over an abstract service state \<open>'w\<close>. Every
  function of the source that awaits such an operation becomes a function from the
  service state to a triple: its outcome (an exception or a value), the service state
  afterwards, and the list of external calls it made, in order.

  Strings are \<open>char list\<close>, a character standing for a code point below 256;
  Python's truthiness of an optional string (\<open>if doc_url:\<close>) is written out.
  Logging is not modelled.
\<close>

subsection \<open>Exceptions\<close>

text \<open>
  \<open>lib_error\<close> is what a collaborator can raise: a \<open>GraphQLClientError\<close> of the
  Graphlit client (of some subclass \<open>cls_name\<close>; only the multi-error subclass carries
  the attribute \<open>errors\<close>, here its \<open>str\<close>), or any other \<open>Exception\<close>, known by
  its \<open>str\<close>. \<open>exn\<close> is what a function of the backend can raise: FastAPI's
  \<open>HTTPException\<close>, or an exception that is not one. What is raised outside the
  class \<open>Exception\<close> (a cancellation, an interrupt) passes every \<open>except\<close> clause
  of the source and is not part of the model.
\<close>

datatype lib_error =
    GraphQLClientError (cls_name: string) (errors: "string option") (gql_str: string)
  | OtherException (exc_str: string)

datatype exn =
    HTTPException (status_code: nat) (detail: string)
  | Raised lib_error

subsection \<open>Data model\<close>

datatype file_preparation_service = AZURE_DOCUMENT_INTELLIGENCE

datatype azure_model = LAYOUT

record workflow_input =
  wf_name :: string
  wf_preparation_jobs :: "(file_preparation_service \<times> azure_model) list"

datatype content = Content (markdown: "string option")

datatype content_details = ContentDetails (content: "content option")

record upload_file =
  filename :: string
  content_type :: "string option"
  file_bytes :: string

record sdk_request =
  sdk_name :: string
  version :: string
  base_url :: string
  doc_url :: "string option"
  doc_file :: "upload_file option"

record GenerateSdkResponse =
  sdk_code :: string
  sdk_usage_example :: string
  message :: string

subsection \<open>External calls\<close>

text \<open>
  One event per awaited call. All but \<open>FileRead\<close> (reading the uploaded file, local
  to the server) go over the network.
\<close>

datatype event =
    QueryWorkflows string
  | CreateWorkflow workflow_input
  | IngestUri string string
  | IngestEncodedFile string string "string option" string
  | GetContent string
  | TeamRun string
  | UsageRun string
  | FileRead string

fun is_model_invocation :: "event \<Rightarrow> bool" where
  "is_model_invocation (TeamRun _) = True"
| "is_model_invocation (UsageRun _) = True"
| "is_model_invocation _ = False"

fun is_ingestion :: "event \<Rightarrow> bool" where
  "is_ingestion (IngestUri _ _) = True"
| "is_ingestion (IngestEncodedFile _ _ _ _) = True"
| "is_ingestion _ = False"

text \<open>
  The collaborators. \<open>client_ready\<close> is the global \<open>graphlit_client_instance\<close> being
  set with a client. \<open>query_workflows\<close> answers with the identifiers of
  \<open>workflows.workflows.results\<close> (the empty list when the answer, its \<open>workflows\<close> or
  its \<open>results\<close> is missing or empty). \<open>create_workflow\<close>, \<open>ingest_uri\<close> and
  \<open>ingest_encoded_file\<close> answer with the \<open>id\<close> of the created entity, \<open>None\<close> when
  the answer has no entity. \<open>team_arun\<close> and \<open>usage_arun\<close> answer with the
  \<open>content\<close> of the run. \<open>guess_type\<close> is \<open>mimetypes.guess_type(name)[0]\<close>,
  \<open>b64encode\<close> is \<open>base64.b64encode(data).decode("utf-8")\<close>, and
  \<open>http_exception_str\<close> is \<open>str\<close> of an \<open>HTTPException\<close>: library code, taken as
  it comes.
\<close>

record 'w services =
  client_ready :: bool
  query_workflows :: "string \<Rightarrow> 'w \<Rightarrow> (lib_error + string list) \<times> 'w"
  create_workflow :: "workflow_input \<Rightarrow> 'w \<Rightarrow> (lib_error + string option) \<times> 'w"
  ingest_uri :: "string \<Rightarrow> string \<Rightarrow> 'w \<Rightarrow> (lib_error + string option) \<times> 'w"
  ingest_encoded_file ::
    "string \<Rightarrow> string \<Rightarrow> string option \<Rightarrow> string \<Rightarrow> 'w \<Rightarrow> (lib_error + string option) \<times> 'w"
  get_content :: "string \<Rightarrow> 'w \<Rightarrow> (lib_error + content_details option) \<times> 'w"
  team_arun :: "string \<Rightarrow> 'w \<Rightarrow> (lib_error + string option) \<times> 'w"
  usage_arun :: "string \<Rightarrow> 'w \<Rightarrow> (lib_error + string option) \<times> 'w"
  guess_type :: "string \<Rightarrow> string option"
  b64encode :: "string \<Rightarrow> string"
  http_exception_str :: "nat \<Rightarrow> string \<Rightarrow> string"

subsection \<open>Python helpers\<close>

text \<open>Truthiness of an \<open>Optional[str]\<close>: neither \<open>None\<close> nor the empty string.\<close>

fun truthy :: "string option \<Rightarrow> bool" where
  "truthy None = False"
| "truthy (Some s) = (s \<noteq> [])"

text \<open>\<open>str(e)\<close> for an exception of the backend.\<close>

fun str_lib :: "lib_error \<Rightarrow> string" where
  "str_lib (GraphQLClientError c es s) = s"
| "str_lib (OtherException s) = s"

fun str_exn :: "'w services \<Rightarrow> exn \<Rightarrow> string" where
  "str_exn env (HTTPException c d) = http_exception_str env c d"
| "str_exn env (Raised e) = str_lib e"

text \<open>The \<open>AttributeError\<close> of reading \<open>e.errors\<close> on an exception that has none.\<close>

definition no_errors_attribute :: "string \<Rightarrow> lib_error" where
  "no_errors_attribute c =
     OtherException ([CHR 0x27] @ c @ [CHR 0x27] @ '' object has no attribute '' @
       [CHR 0x27] @ ''errors'' @ [CHR 0x27])"

text \<open>The \<open>AttributeError\<close> of reading \<open>.id\<close> on a missing entity.\<close>

definition none_has_no_id :: lib_error where
  "none_has_no_id =
     OtherException ([CHR 0x27] @ ''NoneType'' @ [CHR 0x27] @ '' object has no attribute '' @
       [CHR 0x27] @ ''id'' @ [CHR 0x27])"

subsection \<open>Workflow Provisioner: \<open>get_or_create_graphlit_workflow\<close>\<close>

definition workflow_name :: string where
  "workflow_name = ''ApiDocTextExtractionWorkflow''"

definition the_workflow_input :: workflow_input where
  "the_workflow_input =
     \<lparr>wf_name = workflow_name,
      wf_preparation_jobs = [(AZURE_DOCUMENT_INTELLIGENCE, LAYOUT)]\<rparr>"

text \<open>
  The two \<open>except\<close> clauses of the provisioner. The first formats \<open>e.errors\<close>
  without asking whether the exception has that attribute: when it has not, the
  \<open>AttributeError\<close> leaves the function as it is (the second clause does not guard
  the first).
\<close>

fun workflow_except :: "lib_error \<Rightarrow> exn" where
  "workflow_except (GraphQLClientError c None s) = Raised (no_errors_attribute c)"
| "workflow_except (GraphQLClientError c (Some es) s) =
     HTTPException 500 (''Graphlit API error during workflow creation: '' @ es)"
| "workflow_except (OtherException s) =
     HTTPException 500 (''Backend error during Graphlit workflow setup: '' @ s)"

definition get_or_create_graphlit_workflow ::
  "'w services \<Rightarrow> 'w \<Rightarrow> (exn + string) \<times> 'w \<times> event list" where
  "get_or_create_graphlit_workflow env w =
     (case query_workflows env workflow_name w of
        (Inl e, w1) \<Rightarrow> (Inl (workflow_except e), w1, [QueryWorkflows workflow_name])
      | (Inr results, w1) \<Rightarrow>
          (case results of
             wid # _ \<Rightarrow> (Inr wid, w1, [QueryWorkflows workflow_name])
           | [] \<Rightarrow>
               (case create_workflow env the_workflow_input w1 of
                  (Inl e, w2) \<Rightarrow>
                    (Inl (workflow_except e), w2,
                     [QueryWorkflows workflow_name, CreateWorkflow the_workflow_input])
                | (Inr None, w2) \<Rightarrow>
                    (Inl (workflow_except none_has_no_id), w2,
                     [QueryWorkflows workflow_name, CreateWorkflow the_workflow_input])
                | (Inr (Some wid), w2) \<Rightarrow>
                    (Inr wid, w2,
                     [QueryWorkflows workflow_name, CreateWorkflow the_workflow_input]))))"

subsection \<open>Document Ingestion Adapter: \<open>ingest_document_with_graphlit\<close>\<close>

text \<open>
  What the \<open>try\<close> block makes of the service's answer: \<open>response.ingest_uri.id\<close>
  (an \<open>AttributeError\<close> when the entity is missing), then the check
  \<open>if not content_id\<close>.
\<close>

fun content_id_of :: "lib_error + string option \<Rightarrow> exn + string" where
  "content_id_of (Inl e) = Inl (Raised e)"
| "content_id_of (Inr None) = Inl (Raised none_has_no_id)"
| "content_id_of (Inr (Some cid)) =
     (if cid = [] then Inl (HTTPException 500 ''Graphlit ingestion failed to return a content ID.'')
      else Inr cid)"

definition source_required_detail :: string where
  "source_required_detail =
     ''Either doc_url or uploaded file content is required for ingestion.''"

text \<open>The body of the \<open>try\<close> block (lines 185 to 223), the workflow being provisioned.\<close>

definition ingest_try ::
  "'w services \<Rightarrow> string \<Rightarrow> string option \<Rightarrow> string option \<Rightarrow> string option \<Rightarrow> string \<Rightarrow> 'w
     \<Rightarrow> (exn + string) \<times> 'w \<times> event list" where
  "ingest_try env doc_name doc_uri file_content mime_type workflow_id w =
     (if truthy doc_uri then
        (case ingest_uri env (the doc_uri) workflow_id w of
           (r, w1) \<Rightarrow> (content_id_of r, w1, [IngestUri (the doc_uri) workflow_id]))
      else if truthy file_content then
        (case ingest_encoded_file env doc_name (b64encode env (the file_content)) mime_type
                workflow_id w of
           (r, w1) \<Rightarrow>
             (content_id_of r, w1,
              [IngestEncodedFile doc_name (b64encode env (the file_content)) mime_type
                 workflow_id]))
      else
        (Inl (HTTPException 400 source_required_detail), w, []))"

text \<open>
  The two \<open>except\<close> clauses (lines 224 to 237). The second one catches every
  \<open>Exception\<close>, the \<open>HTTPException\<close>s raised inside the \<open>try\<close> block included.
\<close>

fun ingest_except :: "'w services \<Rightarrow> exn \<Rightarrow> exn" where
  "ingest_except env (Raised (GraphQLClientError c es s)) =
     HTTPException 500
       (''Graphlit API error during ingestion: '' @ (case es of Some e \<Rightarrow> e | None \<Rightarrow> s))"
| "ingest_except env e =
     HTTPException 500 (''Backend error during ingestion: '' @ str_exn env e)"

text \<open>The provisioner is called before the \<open>try\<close> block: what it raises is not caught here.\<close>

definition ingest_document_with_graphlit ::
  "'w services \<Rightarrow> string \<Rightarrow> string option \<Rightarrow> string option \<Rightarrow> string option \<Rightarrow> 'w
     \<Rightarrow> (exn + string) \<times> 'w \<times> event list" where
  "ingest_document_with_graphlit env doc_name doc_uri file_content mime_type w =
     (case get_or_create_graphlit_workflow env w of
        (Inl e, w1, evs1) \<Rightarrow> (Inl e, w1, evs1)
      | (Inr workflow_id, w1, evs1) \<Rightarrow>
          (case ingest_try env doc_name doc_uri file_content mime_type workflow_id w1 of
             (Inl e, w2, evs2) \<Rightarrow> (Inl (ingest_except env e), w2, evs1 @ evs2)
           | (Inr content_id, w2, evs2) \<Rightarrow> (Inr content_id, w2, evs1 @ evs2)))"

subsection \<open>Content Retrieval Adapter: \<open>get_content_markdown_from_graphlit\<close>\<close>

text \<open>\<open>content_details.content.markdown\<close>, \<open>None\<close> when a level is missing.\<close>

fun markdown_of :: "content_details option \<Rightarrow> string option" where
  "markdown_of None = None"
| "markdown_of (Some (ContentDetails None)) = None"
| "markdown_of (Some (ContentDetails (Some (Content md)))) = md"

fun content_except :: "'w services \<Rightarrow> exn \<Rightarrow> exn" where
  "content_except env (Raised (GraphQLClientError c es s)) =
     HTTPException 500
       (''Graphlit API error retrieving content: '' @ (case es of Some e \<Rightarrow> e | None \<Rightarrow> s))"
| "content_except env e =
     HTTPException 500 (''Backend error retrieving content: '' @ str_exn env e)"

definition get_content_markdown_from_graphlit ::
  "'w services \<Rightarrow> string \<Rightarrow> 'w \<Rightarrow> (exn + string) \<times> 'w \<times> event list" where
  "get_content_markdown_from_graphlit env content_id w =
     (case get_content env content_id w of
        (Inl e, w1) \<Rightarrow> (Inl (content_except env (Raised e)), w1, [GetContent content_id])
      | (Inr content_details, w1) \<Rightarrow>
          (if \<not> truthy (markdown_of content_details) then
             (Inl (content_except env
                     (HTTPException 500
                        (''Failed to retrieve markdown content for ID '' @ content_id @
                         '' from Graphlit. Content might not be processed yet, or is empty.''))),
              w1, [GetContent content_id])
           else (Inr (the (markdown_of content_details)), w1, [GetContent content_id])))"

subsection \<open>Usage Example Stage: \<open>generate_sdk_usage_example\<close>\<close>

text \<open>
  \<open>str.strip()\<close>: below 256, the white space of Python is the characters 9 to 13
  and 28 to 31, the blank, and the code points 0x85 and 0xA0.
\<close>

definition is_space :: "char \<Rightarrow> bool" where
  "is_space c \<longleftrightarrow>
     c \<in> set [CHR 0x09, CHR 0x0A, CHR 0x0B, CHR 0x0C, CHR 0x0D,
               CHR 0x1C, CHR 0x1D, CHR 0x1E, CHR 0x1F, CHR 0x20, CHR 0x85, CHR 0xA0]"

definition py_strip :: "string \<Rightarrow> string" where
  "py_strip s = rev (dropWhile is_space (rev (dropWhile is_space s)))"

definition usage_prompt :: "string \<Rightarrow> string \<Rightarrow> string \<Rightarrow> string" where
  \<open>usage_prompt code nm url =
     ''\<newline>'' @
     ''        Generate a standalone, functional TypeScript usage example for'' @
     '' the following SDK code, named '' @ [CHR 0x27] @
     nm @
     ''' with base URL '' @ [CHR 0x27] @
     url @
     '''.\<newline>'' @
     ''\<newline>'' @
     ''        The example must:\<newline>'' @
     ''        - Instantiate the SDK class (`const sdk = new '' @
     nm @
     ''('' @ [CHR 0x27] @
     url @
     ''');`).\<newline>'' @
     ''        - Demonstrate at least one GET method call (e.g., fetching all'' @
     '' items or a specific item).\<newline>'' @
     ''        - Demonstrate at least one POST/PUT/DELETE method call if appl'' @
     ''icable (creating/updating/deleting resources). If no such method is ap'' @
     ''parent, omit this part.\<newline>'' @
     ''        - Use `async/await` for all asynchronous operations.\<newline>'' @
     ''        - Implement basic `try...catch` for error handling around API '' @
     ''calls.\<newline>'' @
     ''        - Log results to the console (`console.log`).\<newline>'' @
     ''\<newline>'' @
     ''        Output ONLY the TypeScript code, with no additional text, expl'' @
     ''anations, or markdown fences. The code should be ready to run in a typ'' @
     ''ical Node.js or browser environment (assuming `fetch` API is available'' @
     '').\<newline>'' @
     ''\<newline>'' @
     ''        SDK Code:\<newline>'' @
     ''        ```typescript\<newline>'' @
     ''        '' @
     code @
     ''\<newline>'' @
     ''        ```\<newline>'' @
     ''\<newline>'' @
     ''        Generate a standalone, functional TypeScript code snippet that'' @
     '' clearly demonstrates the usage of **each distinct method** within thi'' @
     ''s SDK class.\<newline>'' @
     ''\<newline>'' @
     ''        For each method or a small logical group of interdependent met'' @
     ''hods:\<newline>'' @
     ''        - Call the method with appropriate dummy/example arguments.\<newline>'' @
     ''        - Wrap the method call in its **own, independent `try...catch`'' @
     '' block** to demonstrate isolated error handling.\<newline>'' @
     ''        - Log the successful result (or error) to the console using `c'' @
     ''onsole.log`.\<newline>'' @
     ''        - Ensure all calls use `async/await` syntax.\<newline>'' @
     ''        - Do NOT include the SDK class definition itself in your outpu'' @
     ''t; **only** the usage demonstration.\<newline>'' @
     ''        - The code should be contained within a single `main` async fu'' @
     ''nction that is then called, similar to:\<newline>'' @
     ''          ```typescript\<newline>'' @
     ''          async function main() {\<newline>'' @
     ''            const sdk = new '' @
     nm @
     ''('' @ [CHR 0x27] @
     url @
     ''');\<newline>'' @
     ''            // Your method demonstrations here\<newline>'' @
     ''          }\<newline>'' @
     ''          main();\<newline>'' @
     ''          ```\<newline>'' @
     ''        - Do NOT include any introductory or concluding conversational'' @
     '' text, explanations, or markdown fences outside of the TypeScript code'' @
     '' itself. The output must be pure, executable TypeScript.\<newline>'' @
     ''        ''\<close>

definition usage_placeholder :: string where
  "usage_placeholder = ''Error generating usage example.''"

text \<open>
  The whole body is one \<open>try\<close> block whose \<open>except Exception\<close> returns the
  placeholder: a failure of the agent, and a run without content
  (\<open>None.strip()\<close>), both end there.
\<close>

definition generate_sdk_usage_example ::
  "'w services \<Rightarrow> string \<Rightarrow> string \<Rightarrow> string \<Rightarrow> 'w \<Rightarrow> string \<times> 'w \<times> event list" where
  "generate_sdk_usage_example env code nm url w =
     (case usage_arun env (usage_prompt code nm url) w of
        (Inl e, w1) \<Rightarrow> (usage_placeholder, w1, [UsageRun (usage_prompt code nm url)])
      | (Inr None, w1) \<Rightarrow> (usage_placeholder, w1, [UsageRun (usage_prompt code nm url)])
      | (Inr (Some text), w1) \<Rightarrow> (py_strip text, w1, [UsageRun (usage_prompt code nm url)]))"

subsection \<open>Request Handler: \<open>generate_sdk_endpoint\<close>\<close>

definition get_graphlit_client :: "'w services \<Rightarrow> exn + unit" where
  "get_graphlit_client env =
     (if \<not> client_ready env then
        Inl (HTTPException 500
          ''Graphlit client not initialized. Check backend logs for errors related to GRAPHLIT_ environment variables.'')
      else Inr ())"

text \<open>
  \<open>str.lower()\<close> and \<open>str.endswith\<close>. Lowering is written for the letters A to Z:
  the source only asks whether the lowered name ends with an ASCII extension, and no
  other character below 256 lowers to an ASCII one.
\<close>

definition lower_char :: "char \<Rightarrow> char" where
  "lower_char c =
     (case map_of (zip ''ABCDEFGHIJKLMNOPQRSTUVWXYZ'' ''abcdefghijklmnopqrstuvwxyz'') c of
        Some l \<Rightarrow> l
      | None \<Rightarrow> c)"

definition lower :: "string \<Rightarrow> string" where
  "lower s = map lower_char s"

definition endswith :: "string \<Rightarrow> string \<Rightarrow> bool" where
  "endswith s suf \<longleftrightarrow> prefix (rev suf) (rev s)"

text \<open>
  The fixed table of extensions (lines 528 to 544), tried in the order of the source;
  the last resort is the generic binary type.
\<close>

definition extension_fallback :: "string \<Rightarrow> string" where
  "extension_fallback file_name_original =
     (if endswith (lower file_name_original) ''.md'' then ''text/markdown''
      else if endswith (lower file_name_original) ''.txt'' then ''text/plain''
      else if endswith (lower file_name_original) ''.pdf'' then ''application/pdf''
      else if endswith (lower file_name_original) ''.docx'' then
        ''application/vnd.openxmlformats-officedocument.wordprocessingml.document''
      else if endswith (lower file_name_original) ''.pptx'' then
        ''application/vnd.openxmlformats-officedocument.presentationml.presentation''
      else ''application/octet-stream'')"

text \<open>The MIME type handed to the ingestion adapter (lines 512 to 545).\<close>

definition resolve_mime_type :: "'w services \<Rightarrow> upload_file \<Rightarrow> string" where
  "resolve_mime_type env f =
     (if content_type f = Some ''application/octet-stream'' \<or> \<not> truthy (content_type f) then
        (if truthy (guess_type env (filename f)) then the (guess_type env (filename f))
         else extension_fallback (filename f))
      else the (content_type f))"

text \<open>
  Step 1 (lines 503 to 555): the URL when there is one, the uploaded file otherwise.
  The result is the variable \<open>content_id\<close>, which stays \<open>None\<close> when neither branch
  runs. Reading the upload is taken to succeed with the bytes of the request.
\<close>

definition ingest_step ::
  "'w services \<Rightarrow> sdk_request \<Rightarrow> 'w \<Rightarrow> (exn + string option) \<times> 'w \<times> event list" where
  "ingest_step env req w =
     (if truthy (doc_url req) then
        (case ingest_document_with_graphlit env (sdk_name req) (doc_url req) None None w of
           (Inl e, w1, evs) \<Rightarrow> (Inl e, w1, evs)
         | (Inr cid, w1, evs) \<Rightarrow> (Inr (Some cid), w1, evs))
      else
        (case doc_file req of
           Some f \<Rightarrow>
             (case ingest_document_with_graphlit env (filename f) None (Some (file_bytes f))
                     (Some (resolve_mime_type env f)) w of
                (Inl e, w1, evs) \<Rightarrow> (Inl e, w1, FileRead (filename f) # evs)
              | (Inr cid, w1, evs) \<Rightarrow> (Inr (Some cid), w1, FileRead (filename f) # evs))
         | None \<Rightarrow> (Inr None, w, [])))"

definition team_initial_input :: "string \<Rightarrow> string \<Rightarrow> string \<Rightarrow> string \<Rightarrow> string" where
  \<open>team_initial_input raw_doc_content nm ver url =
     ''\<newline>'' @
     ''        Below is the API documentation content and the desired SDK con'' @
     ''figuration.\<newline>'' @
     ''        Your task is to first extract the API schema from this documen'' @
     ''tation, and then generate a TypeScript SDK.\<newline>'' @
     ''\<newline>'' @
     ''        --- API Documentation Content ---\<newline>'' @
     ''        '' @
     raw_doc_content @
     ''\<newline>'' @
     ''        -------------------------------\<newline>'' @
     ''\<newline>'' @
     ''        --- SDK Configuration ---\<newline>'' @
     ''        SDK Name: '' @
     nm @
     ''\<newline>'' @
     ''        SDK Version: '' @
     ver @
     ''\<newline>'' @
     ''        API Base URL: '' @
     url @
     ''\<newline>'' @
     ''        -------------------------\<newline>'' @
     ''\<newline>'' @
     ''        Please begin by extracting the API schema.\<newline>'' @
     ''        ''\<close>

text \<open>\<open>kw in generated_sdk_code\<close>: the keyword occurs as a contiguous run.\<close>

fun py_in :: "string \<Rightarrow> string \<Rightarrow> bool" where
  "py_in kw [] = (kw = [])"
| "py_in kw (c # cs) = (prefix kw (c # cs) \<or> py_in kw cs)"

definition sdk_keywords :: "string list" where
  "sdk_keywords = [''interface'', ''class'', ''async'', ''fetch'']"

text \<open>The plausibility check of lines 602 to 604, as the condition under which the code is kept.\<close>

definition resembles_typescript :: "string option \<Rightarrow> bool" where
  "resembles_typescript generated_sdk_code \<longleftrightarrow>
     truthy generated_sdk_code \<and>
     list_ex (\<lambda>kw. py_in kw (the generated_sdk_code)) sdk_keywords"

text \<open>The \<open>TypeError\<close> of slicing \<open>None\<close>, in the log line of the rejection.\<close>

definition none_not_subscriptable :: lib_error where
  "none_not_subscriptable =
     OtherException ([CHR 0x27] @ ''NoneType'' @ [CHR 0x27] @ '' object is not subscriptable'')"

definition generation_failed_detail :: string where
  "generation_failed_detail =
     ''SDK generation failed or returned invalid TypeScript code. This might indicate issues with the API documentation or the LLM's understanding/generation capabilities. Check backend logs for more details.''"

text \<open>
  Lines 597 to 626: the team's run, the plausibility check, the usage example and the
  response, from the document's text.
\<close>

definition generation_step ::
  "'w services \<Rightarrow> sdk_request \<Rightarrow> string \<Rightarrow> 'w \<Rightarrow> (exn + GenerateSdkResponse) \<times> 'w \<times> event list" where
  "generation_step env req raw_doc_content w =
     (let team_input =
            team_initial_input raw_doc_content (sdk_name req) (version req) (base_url req)
      in case team_arun env team_input w of
           (Inl e, w1) \<Rightarrow> (Inl (Raised e), w1, [TeamRun team_input])
         | (Inr generated_sdk_code, w1) \<Rightarrow>
             (if \<not> resembles_typescript generated_sdk_code then
                (case generated_sdk_code of
                   None \<Rightarrow> (Inl (Raised none_not_subscriptable), w1, [TeamRun team_input])
                 | Some code \<Rightarrow>
                     (Inl (HTTPException 500 generation_failed_detail), w1,
                      [TeamRun team_input]))
              else
                (case generate_sdk_usage_example env (the generated_sdk_code) (sdk_name req)
                        (base_url req) w1 of
                   (usage_example, w2, evs) \<Rightarrow>
                     (Inr \<lparr>sdk_code = the generated_sdk_code,
                           sdk_usage_example = usage_example,
                           message =
                             ''TypeScript SDK generated successfully! SDK Name: '' @ sdk_name req\<rparr>,
                      w2, TeamRun team_input # evs))))"

definition empty_content_detail :: string where
  "empty_content_detail =
     ''Retrieved empty or invalid documentation content from Graphlit. Ensure the document contains readable text.''"

text \<open>The body of the handler's \<open>try\<close> block (lines 502 to 626).\<close>

definition endpoint_try ::
  "'w services \<Rightarrow> sdk_request \<Rightarrow> 'w \<Rightarrow> (exn + GenerateSdkResponse) \<times> 'w \<times> event list" where
  "endpoint_try env req w =
     (case ingest_step env req w of
        (Inl e, w1, evs1) \<Rightarrow> (Inl e, w1, evs1)
      | (Inr content_id, w1, evs1) \<Rightarrow>
          (if \<not> truthy content_id then
             (Inl (HTTPException 500
                ''Graphlit ingestion failed to return a content ID. This may indicate an issue with Graphlit service or provided credentials/document.''),
              w1, evs1)
           else
             (case get_content_markdown_from_graphlit env (the content_id) w1 of
                (Inl e, w2, evs2) \<Rightarrow> (Inl e, w2, evs1 @ evs2)
              | (Inr raw_doc_content, w2, evs2) \<Rightarrow>
                  (if py_strip raw_doc_content = [] then
                     (Inl (HTTPException 500 empty_content_detail), w2, evs1 @ evs2)
                   else
                     (case generation_step env req raw_doc_content w2 of
                        (r, w3, evs3) \<Rightarrow> (r, w3, evs1 @ evs2 @ evs3))))))"

text \<open>
  The handler's \<open>except\<close> clauses (lines 628 to 637): an \<open>HTTPException\<close> passes, any
  other exception becomes one with status 500.
\<close>

fun endpoint_except :: "exn \<Rightarrow> exn" where
  "endpoint_except (HTTPException c d) = HTTPException c d"
| "endpoint_except (Raised e) =
     HTTPException 500
       (''An unexpected internal server error occurred: '' @ str_lib e @
        ''. Please check backend logs for more details.'')"

definition no_documentation_detail :: string where
  "no_documentation_detail =
     ''No API documentation provided. Please provide either a URL for the documentation or upload a file.''"

definition generate_sdk_endpoint ::
  "'w services \<Rightarrow> sdk_request \<Rightarrow> 'w \<Rightarrow> (exn + GenerateSdkResponse) \<times> 'w \<times> event list" where
  "generate_sdk_endpoint env req w =
     (if \<not> truthy (doc_url req) \<and> doc_file req = None then
        (Inl (HTTPException 400 no_documentation_detail), w, [])
      else
        (case get_graphlit_client env of
           Inl e \<Rightarrow> (Inl e, w, [])
         | Inr client \<Rightarrow>
             (case endpoint_try env req w of
                (Inl e, w1, evs) \<Rightarrow> (Inl (endpoint_except e), w1, evs)
              | (Inr response, w1, evs) \<Rightarrow> (Inr response, w1, evs))))"

subsection \<open>Reading the trace of a request\<close>

text \<open>Which of the two sources of documentation an external call touches.\<close>

fun uses_doc_url :: "event \<Rightarrow> bool" where
  "uses_doc_url (IngestUri _ _) = True"
| "uses_doc_url _ = False"

fun uses_doc_file :: "event \<Rightarrow> bool" where
  "uses_doc_file (FileRead _) = True"
| "uses_doc_file (IngestEncodedFile _ _ _ _) = True"
| "uses_doc_file _ = False"

fun is_retrieval :: "event \<Rightarrow> bool" where
  "is_retrieval (GetContent _) = True"
| "is_retrieval _ = False"

text \<open>
  The specification's words for the text of a document that cannot be used: absent,
  empty, or made of white space only.
\<close>

fun blank_markdown :: "string option \<Rightarrow> bool" where
  "blank_markdown None = True"
| "blank_markdown (Some text) = list_all is_space text"

subsection \<open>A small service for the examples\<close>

text \<open>
  The examples below run the handler against a service that keeps its workflows as
  pairs of name and identifier: a lookup by name answers with the matching identifiers
  in order of creation, a creation appends one. Ingestion, retrieval and the agents
  answer with fixed values; the guesser of MIME types knows no extension, and the
  stand-ins for \<open>b64encode\<close> and for \<open>str\<close> of an \<open>HTTPException\<close> return the
  data and the detail.
\<close>

definition demo_services :: "(string \<times> string) list services" where
  "demo_services =
     \<lparr>client_ready = True,
      query_workflows = (\<lambda>nm w. (Inr (map snd (filter (\<lambda>p. fst p = nm) w)), w)),
      create_workflow = (\<lambda>inp w. (Inr (Some ''workflow-1''), w @ [(wf_name inp, ''workflow-1'')])),
      ingest_uri = (\<lambda>uri wid w. (Inr (Some ''content-1''), w)),
      ingest_encoded_file = (\<lambda>nm data mime wid w. (Inr (Some ''content-2''), w)),
      get_content =
        (\<lambda>cid w. (Inr (Some (ContentDetails (Some (Content (Some ''GET /users/{userId}''))))), w)),
      team_arun = (\<lambda>p w. (Inr (Some ''class MyApiSdk { }''), w)),
      usage_arun = (\<lambda>p w. (Inr (Some ''main();''), w)),
      guess_type = (\<lambda>nm. None),
      b64encode = (\<lambda>data. data),
      http_exception_str = (\<lambda>c d. d)\<rparr>"

text \<open>The request of the specification's end-to-end scenario.\<close>

definition demo_request :: sdk_request where
  "demo_request =
     \<lparr>sdk_name = ''MyApiSdk'', version = ''1.0.0'',
      base_url = ''https://api.example.com/v1'',
      doc_url = Some ''https://example.com/readme'', doc_file = None\<rparr>"

definition demo_upload :: upload_file where
  "demo_upload =
     \<lparr>filename = ''spec.md'', content_type = Some ''application/octet-stream'',
      file_bytes = ''# Users API''\<rparr>"

section \<open>Properties\<close>

subsection \<open>Auxiliary facts\<close>

lemma py_in_sublist: "py_in kw s \<longleftrightarrow> sublist kw s"
  by (induction s) (auto simp: sublist_Cons_right)

lemma workflow_except_500: "\<exists>d. endpoint_except (workflow_except e) = HTTPException 500 d"
  by (cases e rule: workflow_except.cases) (simp_all add: no_errors_attribute_def)

lemma provisioner_events:
  "get_or_create_graphlit_workflow env w = (r, w1, evs) \<Longrightarrow>
     evs = [QueryWorkflows workflow_name] \<or>
     evs = [QueryWorkflows workflow_name, CreateWorkflow the_workflow_input]"
  by (auto simp: get_or_create_graphlit_workflow_def
           split: prod.splits sum.splits list.splits option.splits)

lemma provisioner_error:
  "get_or_create_graphlit_workflow env w = (Inl e, w1, evs) \<Longrightarrow>
     \<exists>d. endpoint_except e = HTTPException 500 d"
  using workflow_except_500
  by (auto simp: get_or_create_graphlit_workflow_def
           split: prod.splits sum.splits list.splits option.splits)

lemma ingest_except_500: "\<exists>d. ingest_except env e = HTTPException 500 d"
  by (cases "(env, e)" rule: ingest_except.cases) simp_all

lemma ingest_try_events:
  "ingest_try env nm uri fc mime wid w = (r, w1, evs) \<Longrightarrow>
     (truthy uri \<and> evs = [IngestUri (the uri) wid]) \<or>
     (\<not> truthy uri \<and> truthy fc \<and> evs = [IngestEncodedFile nm (b64encode env (the fc)) mime wid]) \<or>
     (\<not> truthy uri \<and> \<not> truthy fc \<and> evs = [] \<and> r = Inl (HTTPException 400 source_required_detail) \<and> w1 = w)"
  by (auto simp: ingest_try_def split: prod.splits if_splits)



lemma ingest_error:
  assumes "ingest_document_with_graphlit env nm uri fc mime w = (Inl e, w1, evs)"
  shows "\<exists>d. endpoint_except e = HTTPException 500 d"
proof (cases "get_or_create_graphlit_workflow env w")
  case (fields r wp evp)
  show ?thesis
  proof (cases r)
    case (Inl ep)
    with fields assms have "e = ep"
      by (simp add: ingest_document_with_graphlit_def)
    with fields Inl show ?thesis
      by (auto dest: provisioner_error)
  next
    case (Inr wid)
    with fields assms obtain ei where "e = ingest_except env ei"
      by (auto simp: ingest_document_with_graphlit_def split: prod.splits sum.splits)
    moreover obtain d where "ingest_except env ei = HTTPException 500 d"
      using ingest_except_500 by blast
    ultimately show ?thesis by simp
  qed
qed

lemma ingest_events:
  assumes "ingest_document_with_graphlit env nm uri fc mime w = (r, w1, evs)"
      and "ev \<in> set evs"
  shows "ev = QueryWorkflows workflow_name \<or> ev = CreateWorkflow the_workflow_input \<or>
         (truthy uri \<and> (\<exists>wid. ev = IngestUri (the uri) wid)) \<or>
         (\<not> truthy uri \<and> truthy fc \<and>
            (\<exists>wid. ev = IngestEncodedFile nm (b64encode env (the fc)) mime wid))"
  using assms
  by (auto simp: ingest_document_with_graphlit_def split: prod.splits sum.splits
           dest!: provisioner_events ingest_try_events)

lemma ingest_first_event:
  assumes "ingest_document_with_graphlit env nm uri fc mime w = (r, w1, evs)"
  shows "\<exists>rest. evs = QueryWorkflows workflow_name # rest"
  using assms
  by (auto simp: ingest_document_with_graphlit_def split: prod.splits sum.splits
           dest!: provisioner_events)



lemma content_except_500: "\<exists>d. content_except env e = HTTPException 500 d \<and> d \<noteq> []"
  by (cases "(env, e)" rule: content_except.cases) simp_all

lemma get_content_events:
  "get_content_markdown_from_graphlit env cid w = (r, w1, evs) \<Longrightarrow> evs = [GetContent cid]"
  by (auto simp: get_content_markdown_from_graphlit_def split: prod.splits sum.splits if_splits)

lemma get_content_error:
  assumes "get_content_markdown_from_graphlit env cid w = (Inl e, w1, evs)"
  shows "\<exists>d. e = HTTPException 500 d \<and> d \<noteq> []"
proof -
  from assms obtain e0 where "e = content_except env e0"
    by (auto simp: get_content_markdown_from_graphlit_def simp del: content_except.simps
             split: prod.splits sum.splits if_splits)
  then show ?thesis using content_except_500 [of env e0] by simp
qed

lemma generation_step_events:
  "generation_step env req raw w = (r, w1, evs) \<Longrightarrow>
     \<exists>p. evs = [TeamRun p] \<or> (\<exists>q. evs = [TeamRun p, UsageRun q])"
  by (auto simp: generation_step_def generate_sdk_usage_example_def Let_def
           split: prod.splits sum.splits if_splits option.splits)

lemma generation_step_error:
  "generation_step env req raw w = (Inl e, w1, evs) \<Longrightarrow>
     \<exists>d. endpoint_except e = HTTPException 500 d"
  by (auto simp: generation_step_def Let_def
           split: prod.splits sum.splits if_splits option.splits)

lemma resembles_typescript_Some:
  "resembles_typescript c \<Longrightarrow> \<exists>code. c = Some code \<and> code \<noteq> []"
  by (cases c) (simp_all add: resembles_typescript_def)

lemma generation_step_success:
  assumes "generation_step env req raw w = (Inr r, w1, evs)"
  shows "resembles_typescript (Some (sdk_code r)) \<and>
         message r = ''TypeScript SDK generated successfully! SDK Name: '' @ sdk_name req"
proof -
  from assms obtain c where c: "resembles_typescript c" "sdk_code r = the c"
    and m: "message r = ''TypeScript SDK generated successfully! SDK Name: '' @ sdk_name req"
    by (auto simp: generation_step_def Let_def
             split: prod.splits sum.splits if_splits option.splits)
  from c(1) obtain code where "c = Some code"
    using resembles_typescript_Some by blast
  with c m show ?thesis by simp
qed

lemmas run_defs =
  generate_sdk_endpoint_def get_graphlit_client_def endpoint_try_def ingest_step_def
  ingest_document_with_graphlit_def get_or_create_graphlit_workflow_def ingest_try_def
  get_content_markdown_from_graphlit_def generation_step_def resembles_typescript_def
  sdk_keywords_def generate_sdk_usage_example_def py_strip_def is_space_def
  resolve_mime_type_def extension_fallback_def endswith_def lower_def lower_char_def
  demo_services_def demo_request_def demo_upload_def

lemma ingest_step_error:
  assumes "ingest_step env req w = (Inl e, w1, evs)"
  shows "\<exists>d. endpoint_except e = HTTPException 500 d"
  using assms
  by (auto simp: ingest_step_def split: if_splits option.splits prod.splits sum.splits
           dest: ingest_error)

lemma endpoint_try_error:
  assumes "endpoint_try env req w = (Inl e, w1, evs)"
  shows "\<exists>d. endpoint_except e = HTTPException 500 d"
  using assms
  by (auto simp: endpoint_try_def split: if_splits prod.splits sum.splits
           dest: ingest_step_error get_content_error generation_step_error)

lemma endpoint_try_success:
  assumes "endpoint_try env req w = (Inr r, w1, evs)"
  shows "\<exists>raw w0 evs0. generation_step env req raw w0 = (Inr r, w1, evs0)"
  using assms
  by (auto simp: endpoint_try_def split: if_splits prod.splits sum.splits)

lemma endpoint_success:
  assumes "generate_sdk_endpoint env req w = (Inr r, w1, evs)"
  shows "endpoint_try env req w = (Inr r, w1, evs)"
  using assms
  by (auto simp: generate_sdk_endpoint_def split: if_splits prod.splits sum.splits)


lemma endpoint_try_cases:
  assumes "endpoint_try env req w = (r, w1, evs)"
  obtains
    (ingest_failed) e where
      "ingest_step env req w = (Inl e, w1, evs)" "r = Inl e"
  | (no_content_id) content_id where
      "ingest_step env req w = (Inr content_id, w1, evs)" "\<not> truthy content_id"
      "\<exists>d. r = Inl (HTTPException 500 d)"
  | (retrieval_failed) cid wi evs1 e where
      "ingest_step env req w = (Inr (Some cid), wi, evs1)"
      "get_content_markdown_from_graphlit env cid wi = (Inl e, w1, [GetContent cid])"
      "r = Inl e" "evs = evs1 @ [GetContent cid]"
  | (blank) cid wi evs1 raw where
      "ingest_step env req w = (Inr (Some cid), wi, evs1)"
      "get_content_markdown_from_graphlit env cid wi = (Inr raw, w1, [GetContent cid])"
      "py_strip raw = []" "r = Inl (HTTPException 500 empty_content_detail)"
      "evs = evs1 @ [GetContent cid]"
  | (generated) cid wi evs1 raw wc evs3 where
      "ingest_step env req w = (Inr (Some cid), wi, evs1)"
      "get_content_markdown_from_graphlit env cid wi = (Inr raw, wc, [GetContent cid])"
      "py_strip raw \<noteq> []" "generation_step env req raw wc = (r, w1, evs3)"
      "evs = evs1 @ GetContent cid # evs3"
proof (cases "ingest_step env req w")
  case (fields ri wi evs1)
  show ?thesis
  proof (cases ri)
    case (Inl e)
    with fields assms show ?thesis
      by (intro ingest_failed [of e]) (simp_all add: endpoint_try_def)
  next
    case (Inr content_id)
    show ?thesis
    proof (cases "truthy content_id")
      case False
      with Inr fields assms show ?thesis
        by (intro no_content_id [of content_id]) (auto simp: endpoint_try_def)
    next
      case True
      then obtain cid where cid: "content_id = Some cid" by (cases content_id) simp_all
      obtain rc wc evs2 where gc: "get_content_markdown_from_graphlit env cid wi = (rc, wc, evs2)"
        by (cases "get_content_markdown_from_graphlit env cid wi")
      then have evs2: "evs2 = [GetContent cid]" by (rule get_content_events)
      show ?thesis
      proof (cases rc)
        case (Inl e)
        with True cid Inr fields assms gc evs2 show ?thesis
          by (intro retrieval_failed [of cid wi evs1 e]) (simp_all add: endpoint_try_def)
      next
        case raw: (Inr raw)
        show ?thesis
        proof (cases "py_strip raw = []")
          case blank_raw: True
          with raw True cid Inr fields assms gc evs2 show ?thesis
            by (intro blank [of cid wi evs1 raw]) (simp_all add: endpoint_try_def)
        next
          case False
          obtain rg wg evs3 where gs: "generation_step env req raw wc = (rg, wg, evs3)"
            by (cases "generation_step env req raw wc")
          with False raw True cid Inr fields assms gc evs2 show ?thesis
            by (intro generated [of cid wi evs1 raw wc evs3]) (simp_all add: endpoint_try_def)
        qed
      qed
    qed
  qed
qed

lemma endpoint_cases:
  assumes "generate_sdk_endpoint env req w = (res, w1, evs)"
  obtains
    (rejected) "\<not> truthy (doc_url req)" "doc_file req = None"
      "res = Inl (HTTPException 400 no_documentation_detail)" "w1 = w" "evs = []"
  | (no_client) "truthy (doc_url req) \<or> doc_file req \<noteq> None"
      "\<exists>d. res = Inl (HTTPException 500 d)" "w1 = w" "evs = []"
  | (failed) e where "truthy (doc_url req) \<or> doc_file req \<noteq> None"
      "endpoint_try env req w = (Inl e, w1, evs)" "res = Inl (endpoint_except e)"
  | (succeeded) r where "truthy (doc_url req) \<or> doc_file req \<noteq> None"
      "endpoint_try env req w = (Inr r, w1, evs)" "res = Inr r"
  using assms
  by (auto simp: generate_sdk_endpoint_def get_graphlit_client_def
           split: if_splits prod.splits sum.splits)

lemma ingest_step_by_url:
  assumes "ingest_step env req w = (r, w1, evs)" and "truthy (doc_url req)" and "ev \<in> set evs"
  shows "\<not> uses_doc_file ev \<and> \<not> is_retrieval ev \<and> \<not> is_model_invocation ev \<and>
         (is_ingestion ev \<longrightarrow> (\<exists>wid. ev = IngestUri (the (doc_url req)) wid))"
proof -
  from assms(1,2) obtain ri where
    "ingest_document_with_graphlit env (sdk_name req) (doc_url req) None None w = (ri, w1, evs)"
    by (auto simp: ingest_step_def split: prod.splits sum.splits)
  from ingest_events [OF this assms(3)] assms(2) show ?thesis
    by auto
qed

lemma ingest_step_by_file:
  assumes "ingest_step env req w = (r, w1, evs)" and "\<not> truthy (doc_url req)"
      and "ev \<in> set evs"
  shows "\<not> uses_doc_url ev \<and> \<not> is_retrieval ev \<and> \<not> is_model_invocation ev"
proof (cases "doc_file req")
  case None
  with assms show ?thesis by (simp add: ingest_step_def)
next
  case (Some f)
  with assms(1,2) obtain ri evs0 where
    run: "ingest_document_with_graphlit env (filename f) None (Some (file_bytes f))
            (Some (resolve_mime_type env f)) w = (ri, w1, evs0)"
    and evs: "evs = FileRead (filename f) # evs0"
    by (auto simp: ingest_step_def split: prod.splits sum.splits)
  from assms(3) evs have "ev = FileRead (filename f) \<or> ev \<in> set evs0" by auto
  then show ?thesis
  proof
    assume "ev = FileRead (filename f)" then show ?thesis by simp
  next
    assume "ev \<in> set evs0"
    from ingest_events [OF run this] show ?thesis by auto
  qed
qed



lemma ingest_step_no_later_stage:
  assumes "ingest_step env req w = (r, w1, evs)" and "ev \<in> set evs"
  shows "\<not> is_retrieval ev \<and> \<not> is_model_invocation ev"
proof (cases "truthy (doc_url req)")
  case True
  from ingest_step_by_url [OF assms(1) True assms(2)] show ?thesis by simp
next
  case False
  from ingest_step_by_file [OF assms(1) False assms(2)] show ?thesis by simp
qed

lemma generation_step_no_source:
  assumes "generation_step env req raw w = (r, w1, evs)" and "ev \<in> set evs"
  shows "\<not> uses_doc_url ev \<and> \<not> uses_doc_file ev \<and> \<not> is_ingestion ev \<and> \<not> is_retrieval ev"
  using generation_step_events [OF assms(1)] assms(2) by auto



lemma py_strip_blank: "py_strip s = [] \<longleftrightarrow> list_all is_space s"
proof
  assume "py_strip s = []"
  then have all: "\<forall>c\<in>set (dropWhile is_space s). is_space c"
    by (simp add: py_strip_def dropWhile_eq_Nil_conv)
  have "dropWhile is_space s = []"
  proof (rule ccontr)
    assume ne: "dropWhile is_space s \<noteq> []"
    then have "\<not> is_space (hd (dropWhile is_space s))" by (rule hd_dropWhile)
    moreover from ne have "hd (dropWhile is_space s) \<in> set (dropWhile is_space s)" by simp
    ultimately show False using all by blast
  qed
  then show "list_all is_space s" by (simp add: dropWhile_eq_Nil_conv list_all_iff)
next
  assume "list_all is_space s"
  then have d: "dropWhile is_space s = []" by (simp add: dropWhile_eq_Nil_conv list_all_iff)
  show "py_strip s = []" unfolding py_strip_def d by simp
qed

lemma retrieval_of_blank:
  assumes "get_content env cid w = (Inr details, w')"
      and "blank_markdown (markdown_of details)"
      and "get_content_markdown_from_graphlit env cid w = (Inr raw, w2, evs)"
  shows "py_strip raw = []"
proof (cases "markdown_of details")
  case None
  with assms(1,3) show ?thesis by (simp add: get_content_markdown_from_graphlit_def)
next
  case (Some md)
  with assms(1,3) have "raw = md"
    by (simp add: get_content_markdown_from_graphlit_def split: if_splits)
  with Some assms(2) show ?thesis by (simp add: py_strip_blank)
qed

lemma generation_step_rejects:
  assumes "generation_step env req raw w = (r, w1, evs)" and "TeamRun p \<in> set evs"
      and "team_arun env p w = (Inr (Some code), w')"
      and "\<not> list_ex (\<lambda>kw. py_in kw code) sdk_keywords"
  shows "r = Inl (HTTPException 500 generation_failed_detail)"
proof -
  let ?p = "team_initial_input raw (sdk_name req) (version req) (base_url req)"
  from assms(1,2) have "p = ?p"
    using generation_step_events [OF assms(1)]
    by (auto simp: generation_step_def generate_sdk_usage_example_def Let_def
             split: prod.splits sum.splits if_splits option.splits)
  with assms(3) have run: "team_arun env ?p w = (Inr (Some code), w')" by simp
  from assms(4) have "\<not> resembles_typescript (Some code)"
    by (simp add: resembles_typescript_def)
  with run assms(1) show ?thesis
    by (simp add: generation_step_def Let_def)
qed


lemma blank_retrieval_outcome:
  assumes blank: "\<forall>w0. \<exists>details w0'. get_content env cid w0 = (Inr details, w0') \<and>
                    blank_markdown (markdown_of details)"
      and got: "get_content_markdown_from_graphlit env cid w = (Inr raw, w2, evs)"
  shows "py_strip raw = []"
proof -
  from blank obtain details w0' where
    "get_content env cid w = (Inr details, w0')" "blank_markdown (markdown_of details)"
    by blast
  from retrieval_of_blank [OF this got] show ?thesis .
qed

lemma str_exn_usage: "str_exn (env\<lparr>usage_arun := u\<rparr>) e = str_exn env e"
  by (cases e) simp_all

lemma ingest_except_usage: "ingest_except (env\<lparr>usage_arun := u\<rparr>) e = ingest_except env e"
proof (cases e)
  case (Raised le)
  then show ?thesis by (cases le) simp_all
qed simp

lemma content_except_usage: "content_except (env\<lparr>usage_arun := u\<rparr>) e = content_except env e"
proof (cases e)
  case (Raised le)
  then show ?thesis by (cases le) simp_all
qed simp

lemma provisioner_usage:
  "get_or_create_graphlit_workflow (env\<lparr>usage_arun := u\<rparr>) w =
   get_or_create_graphlit_workflow env w"
  by (simp add: get_or_create_graphlit_workflow_def
           cong: prod.case_cong sum.case_cong list.case_cong option.case_cong)

lemma ingest_try_usage:
  "ingest_try (env\<lparr>usage_arun := u\<rparr>) nm uri fc mime wid w = ingest_try env nm uri fc mime wid w"
  by (simp add: ingest_try_def cong: prod.case_cong if_cong)

lemma ingest_usage:
  "ingest_document_with_graphlit (env\<lparr>usage_arun := u\<rparr>) nm uri fc mime w =
   ingest_document_with_graphlit env nm uri fc mime w"
  by (simp add: ingest_document_with_graphlit_def provisioner_usage ingest_try_usage
        ingest_except_usage cong: prod.case_cong sum.case_cong)

lemma get_content_usage:
  "get_content_markdown_from_graphlit (env\<lparr>usage_arun := u\<rparr>) cid w =
   get_content_markdown_from_graphlit env cid w"
  by (simp add: get_content_markdown_from_graphlit_def content_except_usage
           del: content_except.simps cong: prod.case_cong sum.case_cong if_cong)

lemma ingest_step_usage: "ingest_step (env\<lparr>usage_arun := u\<rparr>) req w = ingest_step env req w"
  by (simp add: ingest_step_def ingest_usage resolve_mime_type_def
           cong: prod.case_cong sum.case_cong option.case_cong if_cong)

lemma generation_step_usage:
  assumes "\<forall>p w0 text. fst (usage_arun env p w0) \<noteq> Inr (Some text)"
  shows "case fst (generation_step (env\<lparr>usage_arun := u\<rparr>) req raw w) of
           Inl e \<Rightarrow> fst (generation_step env req raw w) = Inl e
         | Inr r \<Rightarrow> fst (generation_step env req raw w) =
                     Inr (r\<lparr>sdk_usage_example := usage_placeholder\<rparr>)"
proof -
  have placeholder: "x = usage_placeholder"
    if "generate_sdk_usage_example env code nm url w0 = (x, w2, evs)" for code nm url w0 x w2 evs
  proof -
    from assms have "fst (usage_arun env (usage_prompt code nm url) w0) \<noteq> Inr (Some s)"
      for s by blast
    with that show ?thesis
      by (auto simp: generate_sdk_usage_example_def
               split: prod.splits sum.splits option.splits)
  qed
  show ?thesis
    by (auto simp: generation_step_def Let_def split: prod.splits sum.splits option.splits
             dest: placeholder)
qed

lemma extension_fallback_examples:
  "extension_fallback ''spec.md'' = ''text/markdown''"
  "extension_fallback ''spec.pdf'' = ''application/pdf''"
  "extension_fallback ''NOTES.TXT'' = ''text/plain''"
  "extension_fallback ''api.docx'' =
     ''application/vnd.openxmlformats-officedocument.wordprocessingml.document''"
  "extension_fallback ''deck.pptx'' =
     ''application/vnd.openxmlformats-officedocument.presentationml.presentation''"
  "extension_fallback ''data.bin'' = ''application/octet-stream''"
  by (simp_all add: extension_fallback_def endswith_def lower_def lower_char_def)

subsection \<open>Runs of the small service\<close>

lemma demo_run:
  "generate_sdk_endpoint demo_services demo_request [] =
     (Inr \<lparr>sdk_code = ''class MyApiSdk { }'', sdk_usage_example = ''main();'',
           message = ''TypeScript SDK generated successfully! SDK Name: MyApiSdk''\<rparr>,
      [(workflow_name, ''workflow-1'')],
      [QueryWorkflows workflow_name, CreateWorkflow the_workflow_input,
       IngestUri ''https://example.com/readme'' ''workflow-1'', GetContent ''content-1'',
       TeamRun (team_initial_input ''GET /users/{userId}'' ''MyApiSdk'' ''1.0.0''
                  ''https://api.example.com/v1''),
       UsageRun (usage_prompt ''class MyApiSdk { }'' ''MyApiSdk'' ''https://api.example.com/v1'')])"
  by (simp add: run_defs the_workflow_input_def)




lemma demo_run_prose:
  "generate_sdk_endpoint
     (demo_services\<lparr>team_arun := \<lambda>p w. (Inr (Some ''Sorry, I cannot help.''), w)\<rparr>)
     demo_request [] =
     (Inl (HTTPException 500 generation_failed_detail),
      [(workflow_name, ''workflow-1'')],
      [QueryWorkflows workflow_name, CreateWorkflow the_workflow_input,
       IngestUri ''https://example.com/readme'' ''workflow-1'', GetContent ''content-1'',
       TeamRun (team_initial_input ''GET /users/{userId}'' ''MyApiSdk'' ''1.0.0''
                  ''https://api.example.com/v1'')])"
  by (simp add: run_defs the_workflow_input_def)

lemma demo_run_blank:
  "generate_sdk_endpoint
     (demo_services\<lparr>get_content :=
        \<lambda>cid w. (Inr (Some (ContentDetails (Some (Content (Some ''  \<newline> ''))))), w)\<rparr>)
     demo_request [] =
     (Inl (HTTPException 500 empty_content_detail),
      [(workflow_name, ''workflow-1'')],
      [QueryWorkflows workflow_name, CreateWorkflow the_workflow_input,
       IngestUri ''https://example.com/readme'' ''workflow-1'', GetContent ''content-1''])"
  by (simp add: run_defs the_workflow_input_def)

lemma demo_run_usage_fails:
  "generate_sdk_endpoint
     (demo_services\<lparr>usage_arun := \<lambda>p w. (Inl (OtherException ''quota exceeded''), w)\<rparr>)
     demo_request [] =
     (Inr \<lparr>sdk_code = ''class MyApiSdk { }'', sdk_usage_example = usage_placeholder,
           message = ''TypeScript SDK generated successfully! SDK Name: MyApiSdk''\<rparr>,
      [(workflow_name, ''workflow-1'')],
      [QueryWorkflows workflow_name, CreateWorkflow the_workflow_input,
       IngestUri ''https://example.com/readme'' ''workflow-1'', GetContent ''content-1'',
       TeamRun (team_initial_input ''GET /users/{userId}'' ''MyApiSdk'' ''1.0.0''
                  ''https://api.example.com/v1''),
       UsageRun (usage_prompt ''class MyApiSdk { }'' ''MyApiSdk'' ''https://api.example.com/v1'')])"
  by (simp add: run_defs the_workflow_input_def)

lemma demo_run_no_client:
  "generate_sdk_endpoint (demo_services\<lparr>client_ready := False\<rparr>) demo_request [] =
     (Inl (HTTPException 500
        ''Graphlit client not initialized. Check backend logs for errors related to GRAPHLIT_ environment variables.''),
      [], [])"
  by (simp add: run_defs)

subsection \<open>A failing usage example does not fail the request\<close>

text \<open>
  Claim C1. Take services whose usage stage raises an error whenever it is run (the
  agent's run raises, or it has no content to strip), and compare them with the same
  services under any other usage agent \<open>u\<close>, one that succeeds for instance. Whenever the request succeeds with \<open>u\<close>, it succeeds with the
  failing agent too, and the response is the same but for \<open>sdk_usage_example\<close>, which
  is the fixed placeholder: \<open>sdk_code\<close> and \<open>message\<close> are unaffected. Whenever the
  request fails with \<open>u\<close>, it fails with the same error: a failure of the usage stage
  never reaches the caller, so every error the caller sees has another cause.
\<close>

theorem usage_failure_is_isolated:
  assumes "\<forall>p w0 text. fst (usage_arun env p w0) \<noteq> Inr (Some text)"
  shows "case fst (generate_sdk_endpoint (env\<lparr>usage_arun := u\<rparr>) req w) of
           Inl e \<Rightarrow> fst (generate_sdk_endpoint env req w) = Inl e
         | Inr r \<Rightarrow> fst (generate_sdk_endpoint env req w) =
                     Inr (r\<lparr>sdk_usage_example := usage_placeholder\<rparr>)"
proof -
  let ?env = "env\<lparr>usage_arun := u\<rparr>"
  have body: "case fst (endpoint_try ?env req w) of
           Inl e \<Rightarrow> fst (endpoint_try env req w) = Inl e
         | Inr r \<Rightarrow> fst (endpoint_try env req w) =
                     Inr (r\<lparr>sdk_usage_example := usage_placeholder\<rparr>)"
  proof (cases "ingest_step env req w")
    case (fields ri wi evs1)
    show ?thesis
    proof (cases ri)
      case (Inl e)
      with fields show ?thesis by (simp add: endpoint_try_def ingest_step_usage)
    next
      case (Inr content_id)
      show ?thesis
      proof (cases "truthy content_id")
        case False
        with Inr fields show ?thesis by (simp add: endpoint_try_def ingest_step_usage)
      next
        case True
        obtain rc wc evs2 where
          gc: "get_content_markdown_from_graphlit env (the content_id) wi = (rc, wc, evs2)"
          by (cases "get_content_markdown_from_graphlit env (the content_id) wi")
        show ?thesis
        proof (cases rc)
          case (Inl e)
          with gc True Inr fields show ?thesis
            by (simp add: endpoint_try_def ingest_step_usage get_content_usage)
        next
          case raw: (Inr raw)
          show ?thesis
          proof (cases "py_strip raw = []")
            case True
            with raw gc \<open>truthy content_id\<close> Inr fields show ?thesis
              by (simp add: endpoint_try_def ingest_step_usage get_content_usage)
          next
            case False
            with raw gc \<open>truthy content_id\<close> Inr fields
            have "fst (endpoint_try ?env req w) = fst (generation_step ?env req raw wc)"
                 "fst (endpoint_try env req w) = fst (generation_step env req raw wc)"
              by (simp_all add: endpoint_try_def ingest_step_usage get_content_usage
                    split: prod.splits)
            with generation_step_usage [OF assms, where u = u and req = req and raw = raw and w = wc]
            show ?thesis by (simp split: sum.splits)
          qed
        qed
      qed
    qed
  qed
  have client: "get_graphlit_client ?env = get_graphlit_client env"
    by (simp add: get_graphlit_client_def)
  show ?thesis
  proof (cases "\<not> truthy (doc_url req) \<and> doc_file req = None")
    case True
    then show ?thesis by (simp add: generate_sdk_endpoint_def)
  next
    case False
    show ?thesis
    proof (cases "get_graphlit_client env")
      case (Inl e)
      with False client show ?thesis by (auto simp: generate_sdk_endpoint_def)
    next
      case (Inr c)
      with False client
      have "fst (generate_sdk_endpoint ?env req w) =
              map_sum endpoint_except id (fst (endpoint_try ?env req w))"
           "fst (generate_sdk_endpoint env req w) =
              map_sum endpoint_except id (fst (endpoint_try env req w))"
        by (auto simp: generate_sdk_endpoint_def split: prod.splits sum.splits)
      with body show ?thesis
        by (auto split: sum.splits)
    qed
  qed
qed

text \<open>
  The small service with a usage agent out of quota: the request of the scenario succeeds
  with the placeholder, and with the code and the message of the run whose agent works.
\<close>

theorem usage_failure_witness:
  "(\<forall>p w0 text. fst (usage_arun
       (demo_services\<lparr>usage_arun := \<lambda>p w. (Inl (OtherException ''quota exceeded''), w)\<rparr>)
       p w0) \<noteq> Inr (Some text)) \<and>
   fst (generate_sdk_endpoint demo_services demo_request []) =
     Inr \<lparr>sdk_code = ''class MyApiSdk { }'', sdk_usage_example = ''main();'',
          message = ''TypeScript SDK generated successfully! SDK Name: MyApiSdk''\<rparr> \<and>
   fst (generate_sdk_endpoint
          (demo_services\<lparr>usage_arun := \<lambda>p w. (Inl (OtherException ''quota exceeded''), w)\<rparr>)
          demo_request []) =
     Inr \<lparr>sdk_code = ''class MyApiSdk { }'',
          sdk_usage_example = ''Error generating usage example.'',
          message = ''TypeScript SDK generated successfully! SDK Name: MyApiSdk''\<rparr>"
proof -
  let ?failing =
    "demo_services\<lparr>usage_arun := \<lambda>p w. (Inl (OtherException ''quota exceeded''), w)\<rparr>"
  have fails: "\<forall>p w0 text. fst (usage_arun ?failing p w0) \<noteq> Inr (Some text)" by simp
  have undo: "?failing\<lparr>usage_arun := usage_arun demo_services\<rparr> = demo_services" by simp
  from usage_failure_is_isolated
         [OF fails, where u = "usage_arun demo_services" and req = demo_request and w = "[]"]
  show ?thesis
    unfolding undo using fails by (simp add: demo_run usage_placeholder_def)
qed

subsection \<open>Validation comes before every external call\<close>

text \<open>
  Claim C2. A request in which both \<open>doc_url\<close> and \<open>doc_file\<close> are absent (no
  URL, or an empty one, and no upload) is rejected by the handler with the validation
  error of status 400, the service state is the one the request found, and the list of
  external calls is empty: no workflow lookup or creation, no ingestion, no retrieval
  and no model run was attempted.
\<close>

theorem missing_sources_rejected_before_any_call:
  assumes "\<not> truthy (doc_url req)" and "doc_file req = None"
  shows "generate_sdk_endpoint env req w =
           (Inl (HTTPException 400 no_documentation_detail), w, [])"
  using assms by (simp add: generate_sdk_endpoint_def)

theorem missing_sources_rejected_witness:
  "\<not> truthy (doc_url (demo_request\<lparr>doc_url := None\<rparr>)) \<and>
   doc_file (demo_request\<lparr>doc_url := None\<rparr>) = None \<and>
   generate_sdk_endpoint demo_services (demo_request\<lparr>doc_url := None\<rparr>) [] =
     (Inl (HTTPException 400 no_documentation_detail), [], [])"
proof -
  have a: "\<not> truthy (doc_url (demo_request\<lparr>doc_url := None\<rparr>))" by simp
  have b: "doc_file (demo_request\<lparr>doc_url := None\<rparr>) = None" by (simp add: demo_request_def)
  from a b missing_sources_rejected_before_any_call [OF a b, of demo_services "[]"]
  show ?thesis by simp
qed

subsection \<open>The plausibility check on the generated code\<close>

text \<open>
  What the check of lines 602 to 604 does guarantee, whatever the services do. If the
  handler returns a response, its \<open>sdk_code\<close> is not empty and contains one of the
  keywords \<open>interface\<close>, \<open>class\<close>, \<open>async\<close>, \<open>fetch\<close>. If the team was run
  on a prompt to which it answers with a text, the empty one included, that contains none
  of them, the request is rejected with the error of the generation-quality failure.
\<close>

lemma plausible_code_or_rejection:
  assumes "generate_sdk_endpoint env req w = (res, w1, evs)"
  shows "(\<forall>r. res = Inr r \<longrightarrow>
            sdk_code r \<noteq> [] \<and> list_ex (\<lambda>kw. py_in kw (sdk_code r)) sdk_keywords) \<and>
         (\<forall>p. TeamRun p \<in> set evs \<and>
              (\<forall>w0. \<exists>code w0'. team_arun env p w0 = (Inr (Some code), w0') \<and>
                       \<not> list_ex (\<lambda>kw. py_in kw code) sdk_keywords) \<longrightarrow>
              res = Inl (HTTPException 500 generation_failed_detail))"
proof (rule conjI; intro allI impI)
  fix r assume "res = Inr r"
  with assms have "endpoint_try env req w = (Inr r, w1, evs)"
    by (simp add: endpoint_success)
  from endpoint_try_success [OF this]
  obtain raw w0 evs0 where "generation_step env req raw w0 = (Inr r, w1, evs0)"
    by auto
  from generation_step_success [OF this]
  show "sdk_code r \<noteq> [] \<and> list_ex (\<lambda>kw. py_in kw (sdk_code r)) sdk_keywords"
    by (simp add: resembles_typescript_def)
next
  fix p
  assume h: "TeamRun p \<in> set evs \<and>
     (\<forall>w0. \<exists>code w0'. team_arun env p w0 = (Inr (Some code), w0') \<and>
              \<not> list_ex (\<lambda>kw. py_in kw code) sdk_keywords)"
  then have p: "TeamRun p \<in> set evs" by simp
  have rejects: "r = Inl (HTTPException 500 generation_failed_detail)"
    if "endpoint_try env req w = (r, w1, evs)" for r
    using that
  proof (cases rule: endpoint_try_cases)
    case (ingest_failed e)
    from ingest_step_no_later_stage [OF ingest_failed(1) p] show ?thesis by simp
  next
    case (no_content_id content_id)
    from ingest_step_no_later_stage [OF no_content_id(1) p] show ?thesis by simp
  next
    case (retrieval_failed cid wi evs1 e)
    with p have "TeamRun p \<in> set evs1" by simp
    from ingest_step_no_later_stage [OF retrieval_failed(1) this] show ?thesis by simp
  next
    case (blank cid wi evs1 raw)
    with p have "TeamRun p \<in> set evs1" by simp
    from ingest_step_no_later_stage [OF blank(1) this] show ?thesis by simp
  next
    case (generated cid wi evs1 raw wc evs3)
    with p have "TeamRun p \<in> set evs1 \<or> TeamRun p \<in> set evs3" by auto
    then have in3: "TeamRun p \<in> set evs3"
    proof
      assume "TeamRun p \<in> set evs1"
      from ingest_step_no_later_stage [OF generated(1) this] show ?thesis by simp
    qed
    from h obtain code w0' where "team_arun env p wc = (Inr (Some code), w0')"
      "\<not> list_ex (\<lambda>kw. py_in kw code) sdk_keywords" by blast
    from generation_step_rejects [OF generated(4) in3 this] show ?thesis .
  qed
  from assms show "res = Inl (HTTPException 500 generation_failed_detail)"
  proof (cases rule: endpoint_cases)
    case rejected
    with p show ?thesis by simp
  next
    case no_client
    with p show ?thesis by simp
  next
    case (failed e)
    from rejects [OF failed(2)] failed(3) show ?thesis by simp
  next
    case (succeeded r)
    from rejects [OF succeeded(2)] show ?thesis by simp
  qed
qed

text \<open>
  The small service returns a class, and the request succeeds; with a team that answers
  in prose, the same request is rejected.
\<close>

lemma plausible_code_examples:
  "(\<exists>r w1 evs. generate_sdk_endpoint demo_services demo_request [] = (Inr r, w1, evs) \<and>
      sdk_code r = ''class MyApiSdk { }'' \<and>
      list_ex (\<lambda>kw. py_in kw (sdk_code r)) sdk_keywords) \<and>
   (\<exists>p w1 evs.
      TeamRun p \<in> set evs \<and>
      (\<forall>w0. \<exists>code w0'.
         team_arun (demo_services\<lparr>team_arun := \<lambda>p w. (Inr (Some ''Sorry, I cannot help.''), w)\<rparr>)
           p w0 = (Inr (Some code), w0') \<and>
         \<not> list_ex (\<lambda>kw. py_in kw code) sdk_keywords) \<and>
      generate_sdk_endpoint
        (demo_services\<lparr>team_arun := \<lambda>p w. (Inr (Some ''Sorry, I cannot help.''), w)\<rparr>)
        demo_request [] = (Inl (HTTPException 500 generation_failed_detail), w1, evs))"
proof -
  have prose: "\<forall>w0. \<exists>code w0'.
      team_arun (demo_services\<lparr>team_arun := \<lambda>p w. (Inr (Some ''Sorry, I cannot help.''), w)\<rparr>)
        p w0 = (Inr (Some code), w0') \<and>
      \<not> list_ex (\<lambda>kw. py_in kw code) sdk_keywords" for p
    by (simp add: sdk_keywords_def)
  from plausible_code_or_rejection [OF demo_run] plausible_code_or_rejection [OF demo_run_prose]
  show ?thesis
    using demo_run demo_run_prose prose by simp
qed

text \<open>
  Claim C3. A request that succeeds returns code that is not empty and contains a
  keyword, and generated code without any is to be rejected as a generation-quality
  failure. The test of line 602 is written for the run without content too
  (\<open>not generated_sdk_code\<close>), and the handler takes the rejecting branch for it;
  but the log line of that branch slices the code (\<open>generated_sdk_code[:1000]\<close>),
  which raises a \<open>TypeError\<close> on \<open>None\<close> before the \<open>raise\<close> of line 608 is
  reached. Here the team's run has no content: the check does not pass, the request fails
  after the team's run, and the error that reaches the caller is the one of the uncaught
  exceptions, not the generation-quality failure.
\<close>

theorem missing_code_leaves_as_unexpected_error:
  "generate_sdk_endpoint (demo_services\<lparr>team_arun := \<lambda>p w. (Inr None, w)\<rparr>) demo_request [] =
     (Inl (HTTPException 500
        ''An unexpected internal server error occurred: 'NoneType' object is not subscriptable. Please check backend logs for more details.''),
      [(workflow_name, ''workflow-1'')],
      [QueryWorkflows workflow_name, CreateWorkflow the_workflow_input,
       IngestUri ''https://example.com/readme'' ''workflow-1'', GetContent ''content-1'',
       TeamRun (team_initial_input ''GET /users/{userId}'' ''MyApiSdk'' ''1.0.0''
                  ''https://api.example.com/v1'')]) \<and>
   \<not> resembles_typescript None \<and>
   fst (generate_sdk_endpoint (demo_services\<lparr>team_arun := \<lambda>p w. (Inr None, w)\<rparr>)
          demo_request []) \<noteq>
     Inl (HTTPException 500 generation_failed_detail)"
  by (simp add: run_defs the_workflow_input_def none_not_subscriptable_def
        generation_failed_detail_def)

subsection \<open>The MIME type of an upload\<close>

text \<open>
  Claim C4. The MIME type of an uploaded file is resolved along a chain. A declared
  content type that is neither missing nor the generic \<open>application/octet-stream\<close> is
  kept. Otherwise the guess made from the file's name is taken when there is one.
  Otherwise the fixed table of extensions decides, and a name with none of its
  extensions gets the generic binary type. In particular, for the name \<open>spec.md\<close>
  declared as \<open>application/octet-stream\<close> the result is \<open>text/markdown\<close>, and for
  \<open>spec.pdf\<close> it is \<open>application/pdf\<close>; the guess comes from Python's
  \<open>mimetypes\<close> and its system tables, and the two results hold when it has no
  answer for the name, so that the table decides, or when it answers with that very
  type.
\<close>

theorem mime_resolution_chain:
  "(truthy (content_type f) \<and> content_type f \<noteq> Some ''application/octet-stream'' \<longrightarrow>
      resolve_mime_type env f = the (content_type f)) \<and>
   ((\<not> truthy (content_type f) \<or> content_type f = Some ''application/octet-stream'') \<and>
    truthy (guess_type env (filename f)) \<longrightarrow>
      resolve_mime_type env f = the (guess_type env (filename f))) \<and>
   ((\<not> truthy (content_type f) \<or> content_type f = Some ''application/octet-stream'') \<and>
    \<not> truthy (guess_type env (filename f)) \<longrightarrow>
      resolve_mime_type env f = extension_fallback (filename f)) \<and>
   (endswith (lower (filename f)) ''.md'' \<longrightarrow>
      extension_fallback (filename f) = ''text/markdown'') \<and>
   (\<not> endswith (lower (filename f)) ''.md'' \<and> \<not> endswith (lower (filename f)) ''.txt'' \<and>
    endswith (lower (filename f)) ''.pdf'' \<longrightarrow>
      extension_fallback (filename f) = ''application/pdf'') \<and>
   (\<not> endswith (lower (filename f)) ''.md'' \<and> \<not> endswith (lower (filename f)) ''.txt'' \<and>
    \<not> endswith (lower (filename f)) ''.pdf'' \<and> \<not> endswith (lower (filename f)) ''.docx'' \<and>
    \<not> endswith (lower (filename f)) ''.pptx'' \<longrightarrow>
      extension_fallback (filename f) = ''application/octet-stream'') \<and>
   (guess_type env ''spec.md'' \<in> {None, Some ''text/markdown''} \<longrightarrow>
      resolve_mime_type env
        \<lparr>filename = ''spec.md'', content_type = Some ''application/octet-stream'',
         file_bytes = bytes\<rparr> = ''text/markdown'') \<and>
   (guess_type env ''spec.pdf'' \<in> {None, Some ''application/pdf''} \<longrightarrow>
      resolve_mime_type env
        \<lparr>filename = ''spec.pdf'', content_type = Some ''application/octet-stream'',
         file_bytes = bytes\<rparr> = ''application/pdf'')"
proof (intro conjI impI)
  show "resolve_mime_type env
        \<lparr>filename = ''spec.md'', content_type = Some ''application/octet-stream'',
         file_bytes = bytes\<rparr> = ''text/markdown''"
    if "guess_type env ''spec.md'' \<in> {None, Some ''text/markdown''}"
    using that by (auto simp: resolve_mime_type_def extension_fallback_examples)
  show "resolve_mime_type env
        \<lparr>filename = ''spec.pdf'', content_type = Some ''application/octet-stream'',
         file_bytes = bytes\<rparr> = ''application/pdf''"
    if "guess_type env ''spec.pdf'' \<in> {None, Some ''application/pdf''}"
    using that by (auto simp: resolve_mime_type_def extension_fallback_examples)
qed (auto simp: resolve_mime_type_def extension_fallback_def)

text \<open>
  Five uploads: \<open>spec.md\<close> and \<open>spec.pdf\<close> declared generic, with a guesser that
  knows nothing; a declared \<open>text/html\<close>; a guess that is taken; and a name that
  nothing knows.
\<close>

theorem mime_resolution_witness:
  "resolve_mime_type demo_services demo_upload = ''text/markdown'' \<and>
   resolve_mime_type demo_services (demo_upload\<lparr>filename := ''spec.pdf''\<rparr>) = ''application/pdf'' \<and>
   resolve_mime_type demo_services (demo_upload\<lparr>content_type := Some ''text/html''\<rparr>) = ''text/html'' \<and>
   resolve_mime_type (demo_services\<lparr>guess_type := \<lambda>nm. Some ''text/x-rst''\<rparr>)
     (demo_upload\<lparr>filename := ''spec.rst'', content_type := None\<rparr>) = ''text/x-rst'' \<and>
   resolve_mime_type demo_services (demo_upload\<lparr>filename := ''data.bin''\<rparr>) =
     ''application/octet-stream''"
proof -
  have md: "guess_type demo_services ''spec.md'' \<in> {None, Some ''text/markdown''}"
   and pdf: "guess_type demo_services ''spec.pdf'' \<in> {None, Some ''application/pdf''}"
    by (simp_all add: demo_services_def)
  have upload: "demo_upload =
      \<lparr>filename = ''spec.md'', content_type = Some ''application/octet-stream'',
       file_bytes = ''# Users API''\<rparr>"
    "demo_upload\<lparr>filename := ''spec.pdf''\<rparr> =
      \<lparr>filename = ''spec.pdf'', content_type = Some ''application/octet-stream'',
       file_bytes = ''# Users API''\<rparr>"
    by (simp_all add: demo_upload_def)
  from mime_resolution_chain [of "demo_upload" demo_services "''# Users API''"]
       mime_resolution_chain [of "demo_upload\<lparr>content_type := Some ''text/html''\<rparr>" demo_services]
       mime_resolution_chain
         [of "demo_upload\<lparr>filename := ''spec.rst'', content_type := None\<rparr>"
             "demo_services\<lparr>guess_type := \<lambda>nm. Some ''text/x-rst''\<rparr>"]
       mime_resolution_chain [of "demo_upload\<lparr>filename := ''data.bin''\<rparr>" demo_services]
       md pdf
  show ?thesis
    unfolding upload
    by (simp add: demo_services_def demo_upload_def extension_fallback_examples)
qed

subsection \<open>The provisioner looks up before it creates\<close>

text \<open>
  Claim C5. The ingestion service is a collaborator, so its part is stated: looking
  workflows up by the fixed name leaves the service as it was, and a workflow created
  when the lookup found none is the first answer of the next lookup. Over such a
  service, if a call of the provisioner returns the identifier \<open>wid\<close>, then a second
  call, made in the state the first one left, returns \<open>wid\<close> again, leaves the state
  as it is, and its only external call is the lookup by name: no creation request is
  issued.
\<close>

theorem provisioner_is_idempotent:
  assumes lookup_reads: "\<forall>w. snd (query_workflows env workflow_name w) = w"
      and created_is_found:
        "\<forall>w w' wid. fst (query_workflows env workflow_name w) = Inr [] \<and>
           create_workflow env the_workflow_input w = (Inr (Some wid), w') \<longrightarrow>
           (\<exists>others. fst (query_workflows env workflow_name w') = Inr (wid # others))"
      and first_call: "get_or_create_graphlit_workflow env w = (Inr wid, w1, evs1)"
  shows "get_or_create_graphlit_workflow env w1 = (Inr wid, w1, [QueryWorkflows workflow_name])"
proof -
  obtain q where q: "query_workflows env workflow_name w = (q, w)"
    using lookup_reads by (metis prod.collapse)
  have found: "\<exists>others. query_workflows env workflow_name w1 = (Inr (wid # others), w1)"
  proof (cases q)
    case (Inl e)
    with q first_call show ?thesis
      by (simp add: get_or_create_graphlit_workflow_def)
  next
    case (Inr results)
    show ?thesis
    proof (cases results)
      case (Cons x xs)
      with Inr q first_call have "x = wid" "w1 = w"
        by (simp_all add: get_or_create_graphlit_workflow_def)
      with Cons Inr q show ?thesis by simp
    next
      case Nil
      with Inr q first_call have c: "create_workflow env the_workflow_input w = (Inr (Some wid), w1)"
        by (auto simp: get_or_create_graphlit_workflow_def
                 split: prod.splits sum.splits option.splits)
      from Nil Inr q have "fst (query_workflows env workflow_name w) = Inr []" by simp
      with c created_is_found obtain others where
        "fst (query_workflows env workflow_name w1) = Inr (wid # others)" by blast
      moreover from lookup_reads have "snd (query_workflows env workflow_name w1) = w1" by simp
      ultimately show ?thesis by (metis prod.collapse)
    qed
  qed
  then show ?thesis
    by (auto simp: get_or_create_graphlit_workflow_def)
qed

text \<open>
  The small service, with no workflow at first: the first call looks up and creates, the
  second one looks up and finds.
\<close>

theorem provisioner_idempotent_witness:
  "get_or_create_graphlit_workflow demo_services [] =
     (Inr ''workflow-1'', [(workflow_name, ''workflow-1'')],
      [QueryWorkflows workflow_name, CreateWorkflow the_workflow_input]) \<and>
   get_or_create_graphlit_workflow demo_services [(workflow_name, ''workflow-1'')] =
     (Inr ''workflow-1'', [(workflow_name, ''workflow-1'')], [QueryWorkflows workflow_name])"
proof -
  have a: "\<forall>w. snd (query_workflows demo_services workflow_name w) = w"
    by (simp add: demo_services_def)
  have b: "\<forall>w w' wid. fst (query_workflows demo_services workflow_name w) = Inr [] \<and>
      create_workflow demo_services the_workflow_input w = (Inr (Some wid), w') \<longrightarrow>
      (\<exists>others. fst (query_workflows demo_services workflow_name w') = Inr (wid # others))"
    by (auto simp: demo_services_def the_workflow_input_def)
  have c: "get_or_create_graphlit_workflow demo_services [] =
     (Inr ''workflow-1'', [(workflow_name, ''workflow-1'')],
      [QueryWorkflows workflow_name, CreateWorkflow the_workflow_input])"
    by (simp add: get_or_create_graphlit_workflow_def demo_services_def the_workflow_input_def)
  from provisioner_is_idempotent [OF a b c] c show ?thesis by simp
qed

subsection \<open>The message of a successful request\<close>

text \<open>
  Claim C6. Whenever the handler returns a response, its \<open>message\<close> is the fixed
  text \<open>TypeScript SDK generated successfully! SDK Name: \<close> followed by the
  request's \<open>sdk_name\<close>; for the name \<open>MyApiSdk\<close> it is exactly
  \<open>TypeScript SDK generated successfully! SDK Name: MyApiSdk\<close>.
\<close>

theorem success_message_names_the_sdk:
  assumes "generate_sdk_endpoint env req w = (Inr r, w1, evs)"
  shows "message r = ''TypeScript SDK generated successfully! SDK Name: '' @ sdk_name req \<and>
         (sdk_name req = ''MyApiSdk'' \<longrightarrow>
            message r = ''TypeScript SDK generated successfully! SDK Name: MyApiSdk'')"
proof -
  from assms obtain raw w0 evs0 where "generation_step env req raw w0 = (Inr r, w1, evs0)"
    using endpoint_try_success [OF endpoint_success [OF assms]] by auto
  then have "message r = ''TypeScript SDK generated successfully! SDK Name: '' @ sdk_name req"
    by (simp add: generation_step_success)
  then show ?thesis by simp
qed

text \<open>The end-to-end scenario of the specification, run against the small service.\<close>

theorem success_message_witness:
  "sdk_name demo_request = ''MyApiSdk'' \<and>
   (\<exists>r w1 evs. generate_sdk_endpoint demo_services demo_request [] = (Inr r, w1, evs) \<and>
      message r = ''TypeScript SDK generated successfully! SDK Name: MyApiSdk'')"
proof -
  have nm: "sdk_name demo_request = ''MyApiSdk''" by (simp add: demo_request_def)
  from success_message_names_the_sdk [OF demo_run] nm show ?thesis
    using demo_run by simp
qed

subsection \<open>Blank content is a terminal failure\<close>

text \<open>
  Claim C7. Suppose a request reaches the retrieval of the content \<open>cid\<close>, and the
  service answers for \<open>cid\<close> with markdown that is absent, empty or made of white
  space only. Then the request fails with an \<open>HTTPException\<close> of status 500 and a
  detail text that is not empty; no model was invoked (neither the team nor the usage
  agent); the retrieval was asked once, and it is the last external call of the request:
  nothing is retried and nothing is tried instead.
\<close>

theorem blank_content_fails_before_generation:
  assumes run: "generate_sdk_endpoint env req w = (res, w1, evs)"
      and reached: "GetContent cid \<in> set evs"
      and blank: "\<forall>w0. \<exists>details w0'. get_content env cid w0 = (Inr details, w0') \<and>
                    blank_markdown (markdown_of details)"
  shows "(\<exists>d. res = Inl (HTTPException 500 d) \<and> d \<noteq> []) \<and>
         \<not> list_ex is_model_invocation evs \<and>
         filter is_retrieval evs = [GetContent cid] \<and>
         last evs = GetContent cid"
proof -
  have body: "(\<exists>d. r = Inl (HTTPException 500 d) \<and> d \<noteq> []) \<and>
         \<not> list_ex is_model_invocation evs \<and>
         filter is_retrieval evs = [GetContent cid] \<and> last evs = GetContent cid"
    if "endpoint_try env req w = (r, w1, evs)" for r
    using that
  proof (cases rule: endpoint_try_cases)
    case (ingest_failed e)
    from ingest_step_no_later_stage [OF ingest_failed(1) reached] show ?thesis by simp
  next
    case (no_content_id content_id)
    from ingest_step_no_later_stage [OF no_content_id(1) reached] show ?thesis by simp
  next
    case (retrieval_failed c wi evs1 e)
    have quiet: "\<forall>ev\<in>set evs1. \<not> is_retrieval ev \<and> \<not> is_model_invocation ev"
      using ingest_step_no_later_stage [OF retrieval_failed(1)] by blast
    with reached retrieval_failed(4) have c: "c = cid" by auto
    from get_content_error [OF retrieval_failed(2)] retrieval_failed(3)
    have "\<exists>d. r = Inl (HTTPException 500 d) \<and> d \<noteq> []" by simp
    with quiet c retrieval_failed(4) show ?thesis by (simp add: list_ex_iff)
  next
    case (blank c wi evs1 raw)
    have quiet: "\<forall>ev\<in>set evs1. \<not> is_retrieval ev \<and> \<not> is_model_invocation ev"
      using ingest_step_no_later_stage [OF blank(1)] by blast
    with reached blank(5) have c: "c = cid" by auto
    have "empty_content_detail \<noteq> []" by (simp add: empty_content_detail_def)
    with quiet c blank(4,5) show ?thesis by (simp add: list_ex_iff)
  next
    case (generated c wi evs1 raw wc evs3)
    have quiet: "\<forall>ev\<in>set evs1. \<not> is_retrieval ev \<and> \<not> is_model_invocation ev"
      using ingest_step_no_later_stage [OF generated(1)] by blast
    have "\<forall>ev\<in>set evs3. \<not> is_retrieval ev"
      using generation_step_no_source [OF generated(4)] by blast
    with quiet reached generated(5) have c: "c = cid" by auto
    from blank_retrieval_outcome [OF assms(3) generated(2) [unfolded c]] generated(3)
    show ?thesis by simp
  qed
  from run show ?thesis
  proof (cases rule: endpoint_cases)
    case rejected
    with reached show ?thesis by simp
  next
    case no_client
    with reached show ?thesis by simp
  next
    case (failed e)
    from body [OF failed(2)] failed(3) show ?thesis by auto
  next
    case (succeeded r)
    from body [OF succeeded(2)] show ?thesis by simp
  qed
qed

text \<open>The small service, answering with blanks and a line break.\<close>

theorem blank_content_witness:
  "(\<forall>w0. \<exists>details w0'.
      get_content
        (demo_services\<lparr>get_content :=
           \<lambda>cid w. (Inr (Some (ContentDetails (Some (Content (Some ''  \<newline> ''))))), w)\<rparr>)
        ''content-1'' w0 = (Inr details, w0') \<and>
      blank_markdown (markdown_of details)) \<and>
   (\<exists>w1 evs.
      generate_sdk_endpoint
        (demo_services\<lparr>get_content :=
           \<lambda>cid w. (Inr (Some (ContentDetails (Some (Content (Some ''  \<newline> ''))))), w)\<rparr>)
        demo_request [] = (Inl (HTTPException 500 empty_content_detail), w1, evs) \<and>
      GetContent ''content-1'' \<in> set evs \<and>
      \<not> list_ex is_model_invocation evs \<and>
      filter is_retrieval evs = [GetContent ''content-1''] \<and>
      last evs = GetContent ''content-1'')"
proof -
  have blank: "\<forall>w0. \<exists>details w0'.
      get_content
        (demo_services\<lparr>get_content :=
           \<lambda>cid w. (Inr (Some (ContentDetails (Some (Content (Some ''  \<newline> ''))))), w)\<rparr>)
        ''content-1'' w0 = (Inr details, w0') \<and>
      blank_markdown (markdown_of details)"
    by (simp add: is_space_def)
  have reached: "GetContent ''content-1'' \<in> set
      [QueryWorkflows workflow_name, CreateWorkflow the_workflow_input,
       IngestUri ''https://example.com/readme'' ''workflow-1'', GetContent ''content-1'']"
    by simp
  from blank_content_fails_before_generation [OF demo_run_blank reached blank] blank
  show ?thesis
    using demo_run_blank by simp
qed

subsection \<open>The status of a failing request\<close>

text \<open>
  Claim C8 says that every failing request returns one and the same HTTP status. The
  handler does not: the validation failure is raised with status 400 (line 494), every
  other failure with status 500. Here a request with no source and a request whose
  generated text passes for no TypeScript both fail, with different statuses.
\<close>

theorem failure_status_counterexample:
  "fst (generate_sdk_endpoint demo_services (demo_request\<lparr>doc_url := None\<rparr>) []) =
     Inl (HTTPException 400 no_documentation_detail) \<and>
   fst (generate_sdk_endpoint
          (demo_services\<lparr>team_arun := \<lambda>p w. (Inr (Some ''Sorry, I cannot help.''), w)\<rparr>)
          demo_request []) =
     Inl (HTTPException 500 generation_failed_detail) \<and>
   (400 :: nat) \<noteq> 500"
  by (simp add: demo_run_prose) (simp add: generate_sdk_endpoint_def demo_request_def)

text \<open>
  Claim C8, amended. Every failing request ends in an \<open>HTTPException\<close>, whatever
  failed (an upstream error, empty content, implausible code, an uncaught exception):
  its status is 400 when the cause is the validation failure of the handler (neither
  source given), and 500 for every other cause; beyond that, the causes differ by the
  detail text only.
\<close>

theorem failure_status_is_400_or_500:
  assumes "generate_sdk_endpoint env req w = (Inl e, w1, evs)"
  shows "\<exists>d. e = HTTPException
                 (if \<not> truthy (doc_url req) \<and> doc_file req = None then 400 else 500) d"
  using assms
proof (cases rule: endpoint_cases)
  case rejected
  then show ?thesis by simp
next
  case no_client
  then show ?thesis by auto
next
  case (failed e0)
  from endpoint_try_error [OF failed(2)] obtain d where "endpoint_except e0 = HTTPException 500 d"
    by blast
  with failed(1,3) show ?thesis by auto
next
  case (succeeded r)
  then show ?thesis by simp
qed

theorem failure_status_witness:
  "(\<exists>d. HTTPException 500 generation_failed_detail =
      HTTPException (if \<not> truthy (doc_url demo_request) \<and> doc_file demo_request = None
                     then 400 else 500) d) \<and>
   fst (generate_sdk_endpoint
      (demo_services\<lparr>team_arun := \<lambda>p w. (Inr (Some ''Sorry, I cannot help.''), w)\<rparr>)
      demo_request []) = Inl (HTTPException 500 generation_failed_detail)"
  using failure_status_is_400_or_500 [OF demo_run_prose] demo_run_prose by simp

subsection \<open>One source of documentation per request\<close>



subsection \<open>The adapter's own check of the source\<close>

text \<open>
  Claim C10. Called with neither a URL nor file content (\<open>None\<close>, or no bytes), the
  adapter provisions the workflow first: its outcome starts with the calls of the
  provisioner, and a failure of the provisioner is the outcome. Only then does it
  raise its validation error of status 400. That error is raised inside the \<open>try\<close>
  block, whose \<open>except Exception\<close> catches it: what leaves the adapter is an
  \<open>HTTPException\<close> of status 500, \<open>Backend error during ingestion: \<close> followed by
  the \<open>str\<close> of the validation error. The caller never sees the status 400 that
  line 210 asks for.
\<close>

theorem adapter_rewraps_its_validation_error:
  "(let outcome =
      (case get_or_create_graphlit_workflow env w of
         (Inl e, w1, evs) \<Rightarrow> (Inl e, w1, evs)
       | (Inr workflow_id, w1, evs) \<Rightarrow>
           (Inl (HTTPException 500
                   (''Backend error during ingestion: '' @
                    http_exception_str env 400 source_required_detail)),
            w1, evs))
    in ingest_document_with_graphlit env doc_name None None mime_type w = outcome \<and>
       ingest_document_with_graphlit env doc_name None (Some []) mime_type w = outcome)"
  by (simp add: ingest_document_with_graphlit_def ingest_try_def Let_def
           split: prod.splits sum.splits)

end
